theory Spec2Isabelle
  imports Main
begin

section \<open>Python values, exceptions and the database driver\<close>

text \<open>
  An instance of Python's \<open>Exception\<close>: the name of its class and the text that
  \<open>str(e)\<close> gives. The handlers of the program are all \<open>except Exception\<close>.
\<close>

datatype exn = Exn (exn_class: string) (exn_str: string)

text \<open>
  The values a tool argument can hold: what a JSON document decodes to. A float is kept
  as the text of its \<open>repr\<close>.
\<close>

datatype pyval =
    PNone
  | PBool bool
  | PInt int
  | PFloat string
  | PStr string
  | PList "pyval list"
  | PDict "(string \<times> pyval) list"

text \<open>
  The cells of a row the driver returns. \<open>DOther ty s\<close> is a value of a class \<open>ty\<close>
  that JSON has no form for (a decimal, a date, bytes), with \<open>s\<close> its \<open>str\<close>.
\<close>

datatype dbval =
    DNull
  | DBool bool
  | DInt int
  | DFloat string
  | DStr string
  | DOther string string

text \<open>
  The calls the program makes on the driver, in the order it makes them, each with its
  outcome (\<open>True\<close>: it returned, \<open>False\<close>: it raised). \<open>Exit b ok\<close> is the
  \<open>__exit__\<close> of the connection at the end of a \<open>with\<close> block, \<open>b\<close> telling
  whether the block is left by an exception.
\<close>

datatype event =
    Connect string bool
  | Enter
  | Cursor bool
  | Execute pyval "pyval list" bool
  | Fetchall bool
  | Description
  | Commit bool
  | Exit bool bool

type_synonym log = "event list"

text \<open>
  The driver (\<open>pyodbc\<close>) and the database behind it are not part of the program: they
  are a parameter. Each entry answers one call, given every call made before it.
\<close>

record driver =
  drv_connect :: "log \<Rightarrow> string \<Rightarrow> exn option"
  drv_cursor :: "log \<Rightarrow> exn option"
  drv_execute :: "log \<Rightarrow> pyval \<Rightarrow> pyval list \<Rightarrow> exn option"
  drv_fetchall :: "log \<Rightarrow> exn + dbval list list"
  drv_description :: "log \<Rightarrow> string list option"
  drv_commit :: "log \<Rightarrow> exn option"
  drv_exit :: "log \<Rightarrow> bool \<Rightarrow> exn option"

section \<open>connector.py\<close>

type_synonym environ = "string \<rightharpoonup> string"

record AzureSQLConnector =
  connection_string :: "string option"

text \<open>The truth value Python gives to \<open>None\<close> or a \<open>str\<close>.\<close>

fun truthy :: "string option \<Rightarrow> bool" where
  "truthy None = False"
| "truthy (Some s) = (s \<noteq> [])"

definition setup_connection :: "environ \<Rightarrow> AzureSQLConnector \<Rightarrow> exn + AzureSQLConnector" where
  "setup_connection env self =
     (let server_name = env ''AZURE_SQL_SERVER'';
          database = env ''AZURE_SQL_DATABASE'';
          username = env ''AZURE_SQL_USERNAME'';
          password = env ''AZURE_SQL_PASSWORD''
      in if \<not> list_all truthy [server_name, database, username, password]
         then Inl (Exn ''ValueError''
                ''Missing required environment variables for Azure SQL connection'')
         else Inr (self\<lparr>connection_string := Some
                (''DRIVER={ODBC Driver 17 for SQL Server};'' @
                 ''SERVER='' @ the server_name @ '';'' @
                 ''DATABASE='' @ the database @ '';'' @
                 ''UID='' @ the username @ '';'' @
                 ''PWD='' @ the password @ '';'' @
                 ''Encrypt=yes;'' @
                 ''TrustServerCertificate=no;'' @
                 ''Connection Timeout=30;'')\<rparr>))"

definition init :: "environ \<Rightarrow> exn + AzureSQLConnector" where
  "init env = setup_connection env \<lparr>connection_string = None\<rparr>"

definition pyodbc_connect :: "driver \<Rightarrow> string \<Rightarrow> log \<Rightarrow> (exn + unit) \<times> log" where
  "pyodbc_connect d s l =
     (case drv_connect d l s of
        Some e \<Rightarrow> (Inl e, l @ [Connect s False])
      | None \<Rightarrow> (Inr (), l @ [Connect s True]))"

definition get_connection :: "driver \<Rightarrow> AzureSQLConnector \<Rightarrow> log \<Rightarrow> (exn + unit) \<times> log" where
  "get_connection d self l =
     (if \<not> truthy (connection_string self)
      then (Inl (Exn ''ValueError'' ''Connection string not configured''), l)
      else (case pyodbc_connect d (the (connection_string self)) l of
              (Inl e, l') \<Rightarrow> (Inl e, l')
            | (Inr c, l') \<Rightarrow> (Inr c, l')))"

section \<open>Python strings\<close>

text \<open>
  A \<open>str\<close> is modelled as a \<open>string\<close>, each \<open>char\<close> standing for the code point of the
  same number (0 to 255). \<open>py_isspace\<close> is the white space that \<open>str.strip()\<close> removes
  in that range.
\<close>

definition py_isspace :: "char \<Rightarrow> bool" where
  "py_isspace c =
     (let n = (of_char c :: nat)
      in (9 \<le> n \<and> n \<le> 13) \<or> (28 \<le> n \<and> n \<le> 32) \<or> n = 133 \<or> n = 160)"

definition strip :: "string \<Rightarrow> string" where
  "strip s = rev (dropWhile py_isspace (rev (dropWhile py_isspace s)))"

text \<open>
  \<open>str.upper()\<close>, one code point at a time: the ASCII letters, the sharp s (223), which
  becomes two letters, and the accented letters 224 to 254. The upper-case forms of 181 and
  255 lie beyond 255 and are no ASCII letters; the two are left in place.
\<close>

definition upper_char :: "char \<Rightarrow> string" where
  "upper_char c =
     (let n = (of_char c :: nat)
      in if 97 \<le> n \<and> n \<le> 122 then [char_of (n - 32)]
         else if n = 223 then ''SS''
         else if 224 \<le> n \<and> n \<le> 254 \<and> n \<noteq> 247 then [char_of (n - 32)]
         else [c])"

definition upper :: "string \<Rightarrow> string" where
  "upper s = concat (map upper_char s)"

definition startswith :: "string \<Rightarrow> string \<Rightarrow> bool" where
  "startswith s p = (take (length p) s = p)"

text \<open>\<open>sep.join(items)\<close> on strings.\<close>

fun join :: "string \<Rightarrow> string list \<Rightarrow> string" where
  "join sep [] = []"
| "join sep [x] = x"
| "join sep (x # y # ys) = x @ sep @ join sep (y # ys)"

fun show_nat :: "nat \<Rightarrow> string" where
  "show_nat n =
     (if n < 10 then [char_of (48 + n)]
      else show_nat (n div 10) @ [char_of (48 + n mod 10)])"

declare show_nat.simps [simp del]

definition show_int :: "int \<Rightarrow> string" where
  "show_int i = (if i < 0 then CHR ''-'' # show_nat (nat (- i)) else show_nat (nat i))"

definition hex_digit :: "nat \<Rightarrow> char" where
  "hex_digit n = (if n < 10 then char_of (48 + n) else char_of (87 + n))"

definition hex2 :: "char \<Rightarrow> string" where
  "hex2 c = (let n = (of_char c :: nat) in [hex_digit (n div 16), hex_digit (n mod 16)])"

text \<open>\<open>repr\<close> of a \<open>str\<close>: the quote is the double one only when the text has a single
  quote and no double one.\<close>

definition repr_char :: "char \<Rightarrow> char \<Rightarrow> string" where
  "repr_char q c =
     (let n = (of_char c :: nat)
      in if c = q \<or> c = CHR 0x5C then [CHR 0x5C, c]
         else if c = CHR 0x09 then [CHR 0x5C, CHR ''t'']
         else if c = CHR 0x0A then [CHR 0x5C, CHR ''n'']
         else if c = CHR 0x0D then [CHR 0x5C, CHR ''r'']
         else if n < 32 \<or> n = 127 \<or> (128 \<le> n \<and> n \<le> 160) \<or> n = 173
           then [CHR 0x5C, CHR ''x''] @ hex2 c
         else [c])"

definition repr_str :: "string \<Rightarrow> string" where
  "repr_str s =
     (let q = (if CHR 0x27 \<in> set s \<and> CHR 0x22 \<notin> set s then CHR 0x22 else CHR 0x27)
      in q # concat (map (repr_char q) s) @ [q])"

fun py_repr :: "pyval \<Rightarrow> string"
  and repr_list :: "pyval list \<Rightarrow> string list"
  and repr_items :: "(string \<times> pyval) list \<Rightarrow> string list" where
  "py_repr PNone = ''None''"
| "py_repr (PBool b) = (if b then ''True'' else ''False'')"
| "py_repr (PInt i) = show_int i"
| "py_repr (PFloat s) = s"
| "py_repr (PStr s) = repr_str s"
| "py_repr (PList xs) = ''['' @ join '', '' (repr_list xs) @ '']''"
| "py_repr (PDict kvs) = ''{'' @ join '', '' (repr_items kvs) @ ''}''"
| "repr_list [] = []"
| "repr_list (x # xs) = py_repr x # repr_list xs"
| "repr_items [] = []"
| "repr_items ((k, v) # kvs) = (repr_str k @ '': '' @ py_repr v) # repr_items kvs"

text \<open>What an f-string puts for \<open>{v}\<close>: \<open>str(v)\<close>.\<close>

fun py_str :: "pyval \<Rightarrow> string" where
  "py_str (PStr s) = s"
| "py_str v = py_repr v"

fun type_name :: "pyval \<Rightarrow> string" where
  "type_name PNone = ''NoneType''"
| "type_name (PBool _) = ''bool''"
| "type_name (PInt _) = ''int''"
| "type_name (PFloat _) = ''float''"
| "type_name (PStr _) = ''str''"
| "type_name (PList _) = ''list''"
| "type_name (PDict _) = ''dict''"

text \<open>The items a \<open>for\<close> loop sees; \<open>None\<close> when the value is not iterable.\<close>

fun py_iter :: "pyval \<Rightarrow> pyval list option" where
  "py_iter (PList xs) = Some xs"
| "py_iter (PStr s) = Some (map (\<lambda>c. PStr [c]) s)"
| "py_iter (PDict kvs) = Some (map (\<lambda>kv. PStr (fst kv)) kvs)"
| "py_iter _ = None"

fun join_items :: "nat \<Rightarrow> pyval list \<Rightarrow> exn + string list" where
  "join_items i [] = Inr []"
| "join_items i (PStr s # xs) =
     (case join_items (Suc i) xs of Inl e \<Rightarrow> Inl e | Inr ss \<Rightarrow> Inr (s # ss))"
| "join_items i (x # xs) =
     Inl (Exn ''TypeError'' (''sequence item '' @ show_nat i @ '': expected str instance, ''
            @ type_name x @ '' found''))"

text \<open>\<open>sep.join(v)\<close> on any value.\<close>

definition str_join :: "string \<Rightarrow> pyval \<Rightarrow> exn + string" where
  "str_join sep v =
     (case py_iter v of
        None \<Rightarrow> Inl (Exn ''TypeError'' ''can only join an iterable'')
      | Some xs \<Rightarrow> (case join_items 0 xs of Inl e \<Rightarrow> Inl e | Inr ss \<Rightarrow> Inr (join sep ss)))"

text \<open>\<open>["?" for _ in values]\<close>.\<close>

definition placeholders :: "pyval \<Rightarrow> exn + string list" where
  "placeholders values =
     (case py_iter values of
        None \<Rightarrow> Inl (Exn ''TypeError''
                  ([CHR 0x27] @ type_name values @ [CHR 0x27] @ '' object is not iterable''))
      | Some xs \<Rightarrow> Inr (map (\<lambda>_. ''?'') xs))"

section \<open>json.dumps with indent=2\<close>

definition json_char :: "char \<Rightarrow> string" where
  "json_char c =
     (let n = (of_char c :: nat)
      in if c = CHR 0x22 then [CHR 0x5C, CHR 0x22]
         else if c = CHR 0x5C then [CHR 0x5C, CHR 0x5C]
         else if c = CHR 0x0A then [CHR 0x5C, CHR ''n'']
         else if c = CHR 0x0D then [CHR 0x5C, CHR ''r'']
         else if c = CHR 0x09 then [CHR 0x5C, CHR ''t'']
         else if c = CHR 0x0C then [CHR 0x5C, CHR ''f'']
         else if c = CHR 0x08 then [CHR 0x5C, CHR ''b'']
         else if n < 32 \<or> 126 < n then [CHR 0x5C, CHR ''u'', CHR ''0'', CHR ''0''] @ hex2 c
         else [c])"

definition json_str :: "string \<Rightarrow> string" where
  "json_str s = CHR 0x22 # concat (map json_char s) @ [CHR 0x22]"

text \<open>One cell; \<open>dflt\<close> tells whether \<open>default=str\<close> was given. A float is kept as the
  text JSON has for it.\<close>

fun json_cell :: "bool \<Rightarrow> dbval \<Rightarrow> exn + string" where
  "json_cell dflt DNull = Inr ''null''"
| "json_cell dflt (DBool b) = Inr (if b then ''true'' else ''false'')"
| "json_cell dflt (DInt i) = Inr (show_int i)"
| "json_cell dflt (DFloat s) = Inr s"
| "json_cell dflt (DStr s) = Inr (json_str s)"
| "json_cell dflt (DOther ty s) =
     (if dflt then Inr (json_str s)
      else Inl (Exn ''TypeError'' (''Object of type '' @ ty @ '' is not JSON serializable'')))"

text \<open>The results of a loop, up to the first exception.\<close>

fun sequence :: "(exn + 'a) list \<Rightarrow> exn + 'a list" where
  "sequence [] = Inr []"
| "sequence (Inl e # rs) = Inl e"
| "sequence (Inr x # rs) = (case sequence rs of Inl e \<Rightarrow> Inl e | Inr xs \<Rightarrow> Inr (x # xs))"

definition nl :: "nat \<Rightarrow> string" where
  "nl k = CHR 0x0A # replicate (2 * k) CHR '' ''"

definition json_array :: "nat \<Rightarrow> string list \<Rightarrow> string" where
  "json_array k items =
     (if items = [] then ''[]''
      else ''['' @ nl (k + 1) @ join ('','' @ nl (k + 1)) items @ nl k @ '']'')"

definition json_object :: "nat \<Rightarrow> (string \<times> string) list \<Rightarrow> string" where
  "json_object k members =
     (if members = [] then ''{}''
      else ''{'' @ nl (k + 1)
           @ join ('','' @ nl (k + 1)) (map (\<lambda>m. json_str (fst m) @ '': '' @ snd m) members)
           @ nl k @ ''}'')"

definition json_member :: "bool \<Rightarrow> string \<times> dbval \<Rightarrow> exn + string \<times> string" where
  "json_member dflt m =
     (case json_cell dflt (snd m) of Inl e \<Rightarrow> Inl e | Inr s \<Rightarrow> Inr (fst m, s))"

definition json_row :: "bool \<Rightarrow> (string \<times> dbval) list \<Rightarrow> exn + string" where
  "json_row dflt row =
     (case sequence (map (json_member dflt) row) of
        Inl e \<Rightarrow> Inl e
      | Inr ms \<Rightarrow> Inr (json_object 1 ms))"

text \<open>\<open>json.dumps\<close> of a list of dicts, and of a list of cells.\<close>

definition json_dumps_rows :: "bool \<Rightarrow> (string \<times> dbval) list list \<Rightarrow> exn + string" where
  "json_dumps_rows dflt rows =
     (case sequence (map (json_row dflt) rows) of
        Inl e \<Rightarrow> Inl e
      | Inr items \<Rightarrow> Inr (json_array 0 items))"

definition json_dumps_cells :: "bool \<Rightarrow> dbval list \<Rightarrow> exn + string" where
  "json_dumps_cells dflt cells =
     (case sequence (map (json_cell dflt) cells) of
        Inl e \<Rightarrow> Inl e
      | Inr items \<Rightarrow> Inr (json_array 0 items))"

text \<open>\<open>dict(pairs)\<close>: a later pair with a key already there replaces the value in place.\<close>

fun dict_set :: "string \<Rightarrow> 'v \<Rightarrow> (string \<times> 'v) list \<Rightarrow> (string \<times> 'v) list" where
  "dict_set k v [] = [(k, v)]"
| "dict_set k v (kv # kvs) = (if fst kv = k then (k, v) # kvs else kv # dict_set k v kvs)"

definition py_dict :: "(string \<times> 'v) list \<Rightarrow> (string \<times> 'v) list" where
  "py_dict pairs = foldl (\<lambda>acc kv. dict_set (fst kv) (snd kv) acc) [] pairs"

definition dict_get :: "(string \<rightharpoonup> pyval) \<Rightarrow> string \<Rightarrow> pyval \<Rightarrow> pyval" where
  "dict_get arguments k dflt = (case arguments k of None \<Rightarrow> dflt | Some v \<Rightarrow> v)"

definition row_item :: "dbval list \<Rightarrow> nat \<Rightarrow> exn + dbval" where
  "row_item row i =
     (if i < length row then Inr (row ! i)
      else Inl (Exn ''IndexError'' ''tuple index out of range''))"

section \<open>Calls on the driver\<close>

type_synonym 'a io = "log \<Rightarrow> (exn + 'a) \<times> log"

definition bind :: "'a io \<Rightarrow> ('a \<Rightarrow> 'b io) \<Rightarrow> 'b io" where
  "bind m f l = (case m l of (Inl e, l') \<Rightarrow> (Inl e, l') | (Inr x, l') \<Rightarrow> f x l')"

text \<open>A step that makes no call on the driver.\<close>

definition lift :: "exn + 'a \<Rightarrow> 'a io" where
  "lift r l = (r, l)"

definition call :: "(log \<Rightarrow> exn option) \<Rightarrow> (bool \<Rightarrow> event) \<Rightarrow> unit io" where
  "call f ev l =
     (case f l of Some e \<Rightarrow> (Inl e, l @ [ev False]) | None \<Rightarrow> (Inr (), l @ [ev True]))"

definition cursor :: "driver \<Rightarrow> unit io" where
  "cursor d = call (drv_cursor d) Cursor"

definition execute :: "driver \<Rightarrow> pyval \<Rightarrow> pyval list \<Rightarrow> unit io" where
  "execute d q ps = call (\<lambda>l. drv_execute d l q ps) (Execute q ps)"

definition commit :: "driver \<Rightarrow> unit io" where
  "commit d = call (drv_commit d) Commit"

definition fetchall :: "driver \<Rightarrow> dbval list list io" where
  "fetchall d l =
     (case drv_fetchall d l of
        Inl e \<Rightarrow> (Inl e, l @ [Fetchall False])
      | Inr rows \<Rightarrow> (Inr rows, l @ [Fetchall True]))"

definition description :: "driver \<Rightarrow> string list option io" where
  "description d l = (Inr (drv_description d l), l @ [Description])"

text \<open>
  \<open>with connector.get_connection() as conn: body\<close>. The connection is entered, the body
  runs, and \<open>__exit__\<close> is called however the body ends (\<open>leave\<close>, which is told
  whether the body raised); an exception of \<open>__exit__\<close> replaces the outcome of the body.
\<close>

definition leave :: "driver \<Rightarrow> (exn + 'a) \<times> log \<Rightarrow> (exn + 'a) \<times> log" where
  "leave d r =
     (case r of
        (Inl e, l2) \<Rightarrow>
          (case drv_exit d l2 True of
             None \<Rightarrow> (Inl e, l2 @ [Exit True True])
           | Some e' \<Rightarrow> (Inl e', l2 @ [Exit True False]))
      | (Inr v, l2) \<Rightarrow>
          (case drv_exit d l2 False of
             None \<Rightarrow> (Inr v, l2 @ [Exit False True])
           | Some e' \<Rightarrow> (Inl e', l2 @ [Exit False False])))"

definition with_connection :: "driver \<Rightarrow> AzureSQLConnector \<Rightarrow> 'a io \<Rightarrow> 'a io" where
  "with_connection d self body l =
     (case get_connection d self l of
        (Inl e, l1) \<Rightarrow> (Inl e, l1)
      | (Inr _, l1) \<Rightarrow> leave d (body (l1 @ [Enter])))"

section \<open>server.py\<close>

text \<open>\<open>TextContent(type=..., text=...)\<close>\<close>

record TextContent =
  tc_type :: string
  tc_text :: string

abbreviation TextBlock :: "string \<Rightarrow> TextContent" where
  "TextBlock t \<equiv> \<lparr>tc_type = ''text'', tc_text = t\<rparr>"

text \<open>\<open>try: body except Exception as e: return [TextContent(type="text", text=prefix + str(e))]\<close>\<close>

definition try_except :: "string \<Rightarrow> TextContent list io \<Rightarrow> TextContent list io" where
  "try_except prefix body l =
     (case body l of
        (Inl e, l') \<Rightarrow> (Inr [\<lparr>tc_type = ''text'', tc_text = prefix @ exn_str e\<rparr>], l')
      | (Inr r, l') \<Rightarrow> (Inr r, l'))"

text \<open>\<open>query.strip().upper().startswith("SELECT")\<close>\<close>

definition is_select :: "pyval \<Rightarrow> exn + bool" where
  "is_select query =
     (case query of
        PStr s \<Rightarrow> Inr (startswith (upper (strip s)) ''SELECT'')
      | _ \<Rightarrow> Inl (Exn ''AttributeError''
                ([CHR 0x27] @ type_name query @ [CHR 0x27] @ '' object has no attribute ''
                 @ [CHR 0x27] @ ''strip'' @ [CHR 0x27])))"

text \<open>\<open>[desc[0] for desc in cursor.description]\<close>\<close>

definition column_names :: "string list option \<Rightarrow> exn + string list" where
  "column_names desc =
     (case desc of
        None \<Rightarrow> Inl (Exn ''TypeError''
                  ([CHR 0x27] @ ''NoneType'' @ [CHR 0x27] @ '' object is not iterable''))
      | Some names \<Rightarrow> Inr names)"

definition execute_query_try ::
  "driver \<Rightarrow> AzureSQLConnector \<Rightarrow> pyval \<Rightarrow> pyval \<Rightarrow> TextContent list io" where
  "execute_query_try d connector query parameters =
     with_connection d connector
       (bind (cursor d) (\<lambda>_.
        bind (execute d query [parameters]) (\<lambda>_.
        bind (lift (is_select query)) (\<lambda>sel.
          if sel then
            bind (fetchall d) (\<lambda>results.
            bind (description d) (\<lambda>desc.
            bind (lift (column_names desc)) (\<lambda>columns.
            bind (lift (json_dumps_rows True
                          (map (\<lambda>row. py_dict (zip columns row)) results))) (\<lambda>js.
            lift (Inr [\<lparr>tc_type = ''text'',
                        tc_text = ''Query executed successfully.'' @ [CHR 0x0A] @ ''Results:''
                               @ [CHR 0x0A] @ js\<rparr>])))))
          else
            bind (commit d) (\<lambda>_.
            lift (Inr [\<lparr>tc_type = ''text'', tc_text = ''Query executed successfully.''\<rparr>]))))))"

definition execute_query ::
  "driver \<Rightarrow> AzureSQLConnector \<Rightarrow> (string \<rightharpoonup> pyval) \<Rightarrow> TextContent list io" where
  "execute_query d connector arguments =
     (let query = dict_get arguments ''query'' (PStr '''');
          parameters = dict_get arguments ''parameters'' (PList [])
      in try_except ''Query execution failed: ''
           (execute_query_try d connector query parameters))"

definition get_tables_sql :: string where
  "get_tables_sql =
     [CHR 0x0A] @ replicate 16 CHR '' '' @ ''SELECT TABLE_NAME''
     @ [CHR 0x0A] @ replicate 16 CHR '' '' @ ''FROM INFORMATION_SCHEMA.TABLES''
     @ [CHR 0x0A] @ replicate 16 CHR '' '' @ ''WHERE TABLE_TYPE = '' @ [CHR 0x27] @ ''BASE TABLE''
     @ [CHR 0x27]
     @ [CHR 0x0A] @ replicate 12 CHR '' ''"

definition get_tables_try :: "driver \<Rightarrow> AzureSQLConnector \<Rightarrow> TextContent list io" where
  "get_tables_try d connector =
     with_connection d connector
       (bind (cursor d) (\<lambda>_.
        bind (execute d (PStr get_tables_sql) []) (\<lambda>_.
        bind (fetchall d) (\<lambda>rows.
        bind (lift (sequence (map (\<lambda>row. row_item row 0) rows))) (\<lambda>tables.
        bind (lift (json_dumps_cells False tables)) (\<lambda>js.
        lift (Inr [\<lparr>tc_type = ''text'',
                    tc_text = ''Tables in database:'' @ [CHR 0x0A] @ js\<rparr>])))))))"

definition get_tables :: "driver \<Rightarrow> AzureSQLConnector \<Rightarrow> TextContent list io" where
  "get_tables d connector = try_except ''Failed to get tables: '' (get_tables_try d connector)"

definition get_table_schema_sql :: string where
  "get_table_schema_sql =
     [CHR 0x0A] @ replicate 16 CHR '' ''
     @ ''SELECT COLUMN_NAME, DATA_TYPE, IS_NULLABLE, COLUMN_DEFAULT''
     @ [CHR 0x0A] @ replicate 16 CHR '' '' @ ''FROM INFORMATION_SCHEMA.COLUMNS''
     @ [CHR 0x0A] @ replicate 16 CHR '' '' @ ''WHERE TABLE_NAME = ?''
     @ [CHR 0x0A] @ replicate 16 CHR '' '' @ ''ORDER BY ORDINAL_POSITION''
     @ [CHR 0x0A] @ replicate 12 CHR '' ''"

text \<open>The dict the loop of \<open>get_table_schema\<close> appends for one row.\<close>

definition schema_row :: "dbval list \<Rightarrow> exn + (string \<times> dbval) list" where
  "schema_row row =
     (case row_item row 0 of Inl e \<Rightarrow> Inl e | Inr a \<Rightarrow>
      case row_item row 1 of Inl e \<Rightarrow> Inl e | Inr b \<Rightarrow>
      case row_item row 2 of Inl e \<Rightarrow> Inl e | Inr c \<Rightarrow>
      case row_item row 3 of Inl e \<Rightarrow> Inl e | Inr dv \<Rightarrow>
        Inr [(''column_name'', a), (''data_type'', b), (''is_nullable'', c),
             (''default_value'', dv)])"

definition get_table_schema_try ::
  "driver \<Rightarrow> AzureSQLConnector \<Rightarrow> pyval \<Rightarrow> TextContent list io" where
  "get_table_schema_try d connector table_name =
     with_connection d connector
       (bind (cursor d) (\<lambda>_.
        bind (execute d (PStr get_table_schema_sql) [table_name]) (\<lambda>_.
        bind (fetchall d) (\<lambda>rows.
        bind (lift (sequence (map schema_row rows))) (\<lambda>columns.
        bind (lift (json_dumps_rows False columns)) (\<lambda>js.
        lift (Inr [\<lparr>tc_type = ''text'',
                    tc_text = ''Schema for table '' @ [CHR 0x27] @ py_str table_name
                           @ [CHR 0x27] @ '':'' @ [CHR 0x0A] @ js\<rparr>])))))))"

definition get_table_schema ::
  "driver \<Rightarrow> AzureSQLConnector \<Rightarrow> (string \<rightharpoonup> pyval) \<Rightarrow> TextContent list io" where
  "get_table_schema d connector arguments =
     (let table_name = dict_get arguments ''table_name'' (PStr '''')
      in try_except ''Failed to get schema: '' (get_table_schema_try d connector table_name))"

definition create_table_try ::
  "driver \<Rightarrow> AzureSQLConnector \<Rightarrow> pyval \<Rightarrow> pyval \<Rightarrow> TextContent list io" where
  "create_table_try d connector table_name columns =
     with_connection d connector
       (bind (cursor d) (\<lambda>_.
        let query = ''CREATE TABLE '' @ py_str table_name @ '' ('' @ py_str columns @ '')''
        in bind (execute d (PStr query) []) (\<lambda>_.
           bind (commit d) (\<lambda>_.
           lift (Inr [\<lparr>tc_type = ''text'',
                       tc_text = ''Table '' @ [CHR 0x27] @ py_str table_name @ [CHR 0x27]
                              @ '' created successfully.''\<rparr>])))))"

definition create_table ::
  "driver \<Rightarrow> AzureSQLConnector \<Rightarrow> (string \<rightharpoonup> pyval) \<Rightarrow> TextContent list io" where
  "create_table d connector arguments =
     (let table_name = dict_get arguments ''table_name'' (PStr '''');
          columns = dict_get arguments ''columns'' (PStr '''')
      in try_except ''Failed to create table: ''
           (create_table_try d connector table_name columns))"

definition insert_query :: "pyval \<Rightarrow> string \<Rightarrow> string \<Rightarrow> string" where
  "insert_query table_name columns_str placeholders_str =
     ''INSERT INTO '' @ py_str table_name @ '' ('' @ columns_str @ '') VALUES (''
     @ placeholders_str @ '')''"

definition insert_data_try ::
  "driver \<Rightarrow> AzureSQLConnector \<Rightarrow> pyval \<Rightarrow> pyval \<Rightarrow> pyval \<Rightarrow> TextContent list io" where
  "insert_data_try d connector table_name columns values =
     with_connection d connector
       (bind (cursor d) (\<lambda>_.
        bind (lift (str_join '', '' columns)) (\<lambda>columns_str.
        bind (lift (placeholders values)) (\<lambda>marks.
        let query = insert_query table_name columns_str (join '', '' marks)
        in bind (execute d (PStr query) [values]) (\<lambda>_.
           bind (commit d) (\<lambda>_.
           lift (Inr [\<lparr>tc_type = ''text'',
                       tc_text = ''Data inserted into '' @ [CHR 0x27] @ py_str table_name
                              @ [CHR 0x27] @ '' successfully.''\<rparr>])))))))"

definition insert_data ::
  "driver \<Rightarrow> AzureSQLConnector \<Rightarrow> (string \<rightharpoonup> pyval) \<Rightarrow> TextContent list io" where
  "insert_data d connector arguments =
     (let table_name = dict_get arguments ''table_name'' (PStr '''');
          columns = dict_get arguments ''columns'' (PList []);
          values = dict_get arguments ''values'' (PList [])
      in try_except ''Failed to insert data: ''
           (insert_data_try d connector table_name columns values))"

definition handle_call_tool ::
  "driver \<Rightarrow> AzureSQLConnector \<Rightarrow> string \<Rightarrow> (string \<rightharpoonup> pyval) option \<Rightarrow> TextContent list io" where
  "handle_call_tool d connector name arguments l =
     (let arguments = (case arguments of None \<Rightarrow> Map.empty | Some a \<Rightarrow> a)
      in case (if name = ''execute_query'' then execute_query d connector arguments l
               else if name = ''get_tables'' then get_tables d connector l
               else if name = ''get_table_schema'' then get_table_schema d connector arguments l
               else if name = ''create_table'' then create_table d connector arguments l
               else if name = ''insert_data'' then insert_data d connector arguments l
               else (Inr [\<lparr>tc_type = ''text'', tc_text = ''Unknown tool: '' @ name\<rparr>], l)) of
           (Inl e, l') \<Rightarrow> (Inr [\<lparr>tc_type = ''text'', tc_text = ''Error: '' @ exn_str e\<rparr>], l')
         | (Inr r, l') \<Rightarrow> (Inr r, l'))"

text \<open>The names \<open>handle_list_tools\<close> declares.\<close>

definition tool_names :: "string list" where
  "tool_names =
     [''execute_query'', ''get_tables'', ''get_table_schema'', ''create_table'', ''insert_data'']"

text \<open>The \<open>try\<close> block of the tool that \<open>handle_call_tool\<close> selects for a name, with the
  arguments read as the tool reads them, and the prefix its \<open>except\<close> clause writes.\<close>

definition tool_try ::
  "driver \<Rightarrow> AzureSQLConnector \<Rightarrow> string \<Rightarrow> (string \<rightharpoonup> pyval) \<Rightarrow> TextContent list io" where
  "tool_try d connector name a =
     (if name = ''execute_query''
        then execute_query_try d connector (dict_get a ''query'' (PStr ''''))
               (dict_get a ''parameters'' (PList []))
      else if name = ''get_tables'' then get_tables_try d connector
      else if name = ''get_table_schema''
        then get_table_schema_try d connector (dict_get a ''table_name'' (PStr ''''))
      else if name = ''create_table''
        then create_table_try d connector (dict_get a ''table_name'' (PStr ''''))
               (dict_get a ''columns'' (PStr ''''))
      else insert_data_try d connector (dict_get a ''table_name'' (PStr ''''))
             (dict_get a ''columns'' (PList [])) (dict_get a ''values'' (PList [])))"

definition failure_prefix :: "string \<Rightarrow> string" where
  "failure_prefix name =
     (if name = ''execute_query'' then ''Query execution failed: ''
      else if name = ''get_tables'' then ''Failed to get tables: ''
      else if name = ''get_table_schema'' then ''Failed to get schema: ''
      else if name = ''create_table'' then ''Failed to create table: ''
      else ''Failed to insert data: '')"





text \<open>
  After a statement has been executed with success, the next call is a commit.
\<close>

fun commit_follows :: "event list \<Rightarrow> bool" where
  "commit_follows [] = True"
| "commit_follows (Execute q ps True # es) =
     (case es of Commit ok # es' \<Rightarrow> commit_follows es' | _ \<Rightarrow> False)"
| "commit_follows (e # es) = commit_follows es"





text \<open>Two predicates on computations, for the proofs: a successful result is one text
  block; the log grows by operations on the connection only.\<close>

definition returns_text :: "TextContent list io \<Rightarrow> bool" where
  "returns_text m = (\<forall>l v l'. m l = (Inr v, l') \<longrightarrow> (\<exists>t. v = [TextBlock t]))"


text \<open>A driver on which every call succeeds, with the rows and the column names given.\<close>

definition drv_quiet :: "dbval list list \<Rightarrow> string list option \<Rightarrow> driver" where
  "drv_quiet rows desc =
     \<lparr>drv_connect = (\<lambda>l s. None), drv_cursor = (\<lambda>l. None),
      drv_execute = (\<lambda>l q ps. None), drv_fetchall = (\<lambda>l. Inr rows),
      drv_description = (\<lambda>l. desc), drv_commit = (\<lambda>l. None),
      drv_exit = (\<lambda>l b. None)\<rparr>"

text \<open>A driver that accepts the connection and rejects every statement.\<close>

definition drv_reject :: "exn \<Rightarrow> driver" where
  "drv_reject e =
     \<lparr>drv_connect = (\<lambda>l s. None), drv_cursor = (\<lambda>l. None),
      drv_execute = (\<lambda>l q ps. Some e), drv_fetchall = (\<lambda>l. Inr []),
      drv_description = (\<lambda>l. None), drv_commit = (\<lambda>l. None),
      drv_exit = (\<lambda>l b. None)\<rparr>"

definition conn_str_ok :: string where
  "conn_str_ok = ''DRIVER={ODBC Driver 17 for SQL Server};SERVER=h;DATABASE=d;UID=u;PWD=p;Encrypt=yes;TrustServerCertificate=no;Connection Timeout=30;''"

definition required_vars :: "string list" where
  "required_vars =
     [''AZURE_SQL_SERVER'', ''AZURE_SQL_DATABASE'', ''AZURE_SQL_USERNAME'', ''AZURE_SQL_PASSWORD'']"

definition env_ok :: environ where
  "env_ok = [''AZURE_SQL_SERVER'' \<mapsto> ''h'', ''AZURE_SQL_DATABASE'' \<mapsto> ''d'',
             ''AZURE_SQL_USERNAME'' \<mapsto> ''u'', ''AZURE_SQL_PASSWORD'' \<mapsto> ''p'']"

definition env_empty_password :: environ where
  "env_empty_password = env_ok(''AZURE_SQL_PASSWORD'' \<mapsto> [])"

definition connector_ok :: AzureSQLConnector where
  "connector_ok = \<lparr>connection_string = Some conn_str_ok\<rparr>"

section \<open>Steps of a computation\<close>

lemma bind_InrE:
  assumes "bind m f l = (Inr v, l')"
  obtains x l1 where "m l = (Inr x, l1)" and "f x l1 = (Inr v, l')"
  using assms by (auto simp: bind_def split: prod.splits sum.splits)

lemma bind_Inr: "m l = (Inr x, l1) \<Longrightarrow> bind m f l = f x l1"
  by (simp add: bind_def)

lemma bind_Inl: "m l = (Inl e, l1) \<Longrightarrow> bind m f l = (Inl e, l1)"
  by (simp add: bind_def)

lemma lift_eq: "lift r l = (r', l') \<longleftrightarrow> r' = r \<and> l' = l"
  by (auto simp: lift_def)

lemma call_Inr: "call f ev l = (Inr x, l') \<longleftrightarrow> f l = None \<and> l' = l @ [ev True]"
  by (auto simp: call_def split: option.splits)

lemma call_Inl: "call f ev l = (Inl e, l') \<longleftrightarrow> f l = Some e \<and> l' = l @ [ev False]"
  by (auto simp: call_def split: option.splits)

lemma fetchall_Inr:
  "fetchall d l = (Inr rows, l') \<longleftrightarrow> drv_fetchall d l = Inr rows \<and> l' = l @ [Fetchall True]"
  by (auto simp: fetchall_def split: sum.splits)

lemma description_eq:
  "description d l = (r, l') \<longleftrightarrow> r = Inr (drv_description d l) \<and> l' = l @ [Description]"
  by (auto simp: description_def)

lemma get_connection_Inr:
  "get_connection d c l = (Inr u, l') \<longleftrightarrow>
     (\<exists>s. connection_string c = Some s \<and> s \<noteq> [] \<and> drv_connect d l s = None
          \<and> l' = l @ [Connect s True])"
  by (cases "connection_string c")
     (auto simp: get_connection_def pyodbc_connect_def split: option.splits)

lemma with_connection_InrE:
  assumes "with_connection d c body l = (Inr v, l')"
  obtains s l2 where "connection_string c = Some s" and "s \<noteq> []"
    and "drv_connect d l s = None"
    and "body (l @ [Connect s True, Enter]) = (Inr v, l2)"
    and "drv_exit d l2 False = None"
    and "l' = l2 @ [Exit False True]"
proof -
  from assms obtain u l1 where g: "get_connection d c l = (Inr u, l1)"
    by (auto simp: with_connection_def leave_def split: prod.splits sum.splits)
  then obtain s where s: "connection_string c = Some s" "s \<noteq> []" "drv_connect d l s = None"
      "l1 = l @ [Connect s True]"
    by (auto simp: get_connection_Inr)
  from assms g obtain l2 where "body (l1 @ [Enter]) = (Inr v, l2)" "drv_exit d l2 False = None"
      "l' = l2 @ [Exit False True]"
    by (auto simp: with_connection_def leave_def split: prod.splits sum.splits option.splits)
  with s show ?thesis using that by simp
qed

lemma with_connection_Inr:
  assumes "connection_string c = Some s" and "s \<noteq> []" and "drv_connect d l s = None"
    and "body (l @ [Connect s True, Enter]) = (Inr v, l2)" and "drv_exit d l2 False = None"
  shows "with_connection d c body l = (Inr v, l2 @ [Exit False True])"
  using assms by (simp add: with_connection_def leave_def get_connection_def pyodbc_connect_def)

text \<open>The log a \<open>with\<close> block leaves, in closed form.\<close>

lemma with_connection_snd:
  "snd (with_connection d c body l) =
     (case connection_string c of
        None \<Rightarrow> l
      | Some s \<Rightarrow>
          if s = [] then l
          else if drv_connect d l s \<noteq> None then l @ [Connect s False]
          else (let r = body (l @ [Connect s True, Enter])
                in snd r @ [Exit (isl (fst r)) (drv_exit d (snd r) (isl (fst r)) = None)]))"
  by (cases "connection_string c")
     (auto simp: with_connection_def leave_def get_connection_def pyodbc_connect_def Let_def
           split: prod.splits sum.splits option.splits)

lemma try_except_snd: "snd (try_except p body l) = snd (body l)"
  by (auto simp: try_except_def split: prod.splits sum.splits)

lemma try_except_fst:
  "fst (try_except p body l) =
     (case fst (body l) of Inl e \<Rightarrow> Inr [TextBlock (p @ exn_str e)] | Inr r \<Rightarrow> Inr r)"
  by (auto simp: try_except_def split: prod.splits sum.splits)

lemma try_except_InrD:
  assumes "try_except p body l = (Inr [b], l')"
  shows "body l = (Inr [b], l')
         \<or> (\<exists>e. body l = (Inl e, l') \<and> b = TextBlock (p @ exn_str e))"
  using assms by (auto simp: try_except_def split: prod.splits sum.splits)

section \<open>Every tool answers with one text block\<close>

lemma returns_text_bind: "(\<And>x. returns_text (f x)) \<Longrightarrow> returns_text (bind m f)"
  unfolding returns_text_def by (blast elim: bind_InrE)

lemma returns_text_lift_Inr: "returns_text (lift (Inr [TextBlock t]))"
  by (simp add: returns_text_def lift_eq)

lemma returns_text_if: "returns_text a \<Longrightarrow> returns_text b \<Longrightarrow> returns_text (if p then a else b)"
  by simp

lemma returns_text_let: "(\<And>x. returns_text (f x)) \<Longrightarrow> returns_text (Let y f)"
  by simp

lemma returns_text_with: "returns_text body \<Longrightarrow> returns_text (with_connection d c body)"
  unfolding returns_text_def by (blast elim: with_connection_InrE)

lemma returns_text_try: "returns_text body \<Longrightarrow> \<exists>t. fst (try_except p body l) = Inr [TextBlock t]"
  unfolding returns_text_def try_except_fst
  by (cases "body l") (auto split: sum.splits)

lemmas returns_text_intros =
  returns_text_with returns_text_bind returns_text_lift_Inr returns_text_if returns_text_let

lemma execute_query_try_text: "returns_text (execute_query_try d c q ps)"
  unfolding execute_query_try_def by (intro returns_text_intros)

lemma get_tables_try_text: "returns_text (get_tables_try d c)"
  unfolding get_tables_try_def by (intro returns_text_intros)

lemma get_table_schema_try_text: "returns_text (get_table_schema_try d c t)"
  unfolding get_table_schema_try_def by (intro returns_text_intros)

lemma create_table_try_text: "returns_text (create_table_try d c t cols)"
  unfolding create_table_try_def by (intro returns_text_intros)

lemma insert_data_try_text: "returns_text (insert_data_try d c t cols vs)"
  unfolding insert_data_try_def by (intro returns_text_intros)

lemma tools_text:
  "\<exists>t. fst (execute_query d c args l) = Inr [TextBlock t]"
  "\<exists>t. fst (get_tables d c l) = Inr [TextBlock t]"
  "\<exists>t. fst (get_table_schema d c args l) = Inr [TextBlock t]"
  "\<exists>t. fst (create_table d c args l) = Inr [TextBlock t]"
  "\<exists>t. fst (insert_data d c args l) = Inr [TextBlock t]"
  unfolding execute_query_def get_tables_def get_table_schema_def create_table_def insert_data_def Let_def
  by (rule returns_text_try, rule execute_query_try_text get_tables_try_text
        get_table_schema_try_text create_table_try_text insert_data_try_text)+

lemma handle_call_tool_fst:
  "fst (handle_call_tool d c name arguments l) =
     (let a = (case arguments of None \<Rightarrow> Map.empty | Some a \<Rightarrow> a)
      in if name = ''execute_query'' then fst (execute_query d c a l)
         else if name = ''get_tables'' then fst (get_tables d c l)
         else if name = ''get_table_schema'' then fst (get_table_schema d c a l)
         else if name = ''create_table'' then fst (create_table d c a l)
         else if name = ''insert_data'' then fst (insert_data d c a l)
         else Inr [TextBlock (''Unknown tool: '' @ name)])"
proof -
  have k: "\<And>m. \<exists>t. fst m = Inr [TextBlock t] \<Longrightarrow>
      fst (case m of (Inl e, l') \<Rightarrow> (Inr [TextBlock (''Error: '' @ exn_str e)], l')
               | (Inr r, l') \<Rightarrow> (Inr r, l')) = fst m"
    by (auto split: prod.splits sum.splits)
  show ?thesis
    unfolding handle_call_tool_def Let_def
    by (simp add: k tools_text del: One_nat_def)
qed


section \<open>The events of a call\<close>



















lemma tool_names_cases:
  assumes "name \<in> set tool_names"
  obtains "name = ''execute_query''" | "name = ''get_tables''" | "name = ''get_table_schema''"
    | "name = ''create_table''" | "name = ''insert_data''"
proof -
  from assms have "name = ''execute_query'' \<or> name = ''get_tables'' \<or> name = ''get_table_schema''
      \<or> name = ''create_table'' \<or> name = ''insert_data''"
    unfolding tool_names_def by (simp only: list.set insert_iff empty_iff simp_thms)
  then show thesis
  proof (elim disjE)
    assume "name = ''execute_query''" then show thesis by (rule that(1))
  next
    assume "name = ''get_tables''" then show thesis by (rule that(2))
  next
    assume "name = ''get_table_schema''" then show thesis by (rule that(3))
  next
    assume "name = ''create_table''" then show thesis by (rule that(4))
  next
    assume "name = ''insert_data''" then show thesis by (rule that(5))
  qed
qed


lemma handle_call_tool_fst_tool:
  assumes "name \<in> set tool_names"
  shows "fst (handle_call_tool d c name arguments l)
         = (case fst (tool_try d c name (case arguments of None \<Rightarrow> Map.empty | Some a \<Rightarrow> a) l) of
              Inl e \<Rightarrow> Inr [TextBlock (failure_prefix name @ exn_str e)]
            | Inr r \<Rightarrow> Inr r)"
  using assms
proof (cases rule: tool_names_cases)
  case 1
  then show ?thesis
    by (simp add: handle_call_tool_fst tool_try_def failure_prefix_def execute_query_def Let_def
          try_except_fst split: sum.splits)
next
  case 2
  then show ?thesis
    by (simp add: handle_call_tool_fst tool_try_def failure_prefix_def get_tables_def Let_def
          try_except_fst split: sum.splits)
next
  case 3
  then show ?thesis
    by (simp add: handle_call_tool_fst tool_try_def failure_prefix_def get_table_schema_def Let_def
          try_except_fst split: sum.splits)
next
  case 4
  then show ?thesis
    by (simp add: handle_call_tool_fst tool_try_def failure_prefix_def create_table_def Let_def
          try_except_fst split: sum.splits)
next
  case 5
  then show ?thesis
    by (simp add: handle_call_tool_fst tool_try_def failure_prefix_def insert_data_def Let_def
          try_except_fst split: sum.splits)
qed






section \<open>Evaluation on the sample drivers\<close>

lemma quiet_steps:
  "drv_connect (drv_quiet rows desc) l s = None"
  "drv_cursor (drv_quiet rows desc) l = None"
  "drv_execute (drv_quiet rows desc) l q ps = None"
  "drv_fetchall (drv_quiet rows desc) l = Inr rows"
  "drv_description (drv_quiet rows desc) l = desc"
  "drv_commit (drv_quiet rows desc) l = None"
  "drv_exit (drv_quiet rows desc) l b = None"
  by (simp_all add: drv_quiet_def)

lemma connector_ok_string:
  "connection_string connector_ok = Some conn_str_ok" "conn_str_ok \<noteq> []"
  by (simp_all add: connector_ok_def conn_str_ok_def)

lemmas run_defs = try_except_def with_connection_def leave_def get_connection_def pyodbc_connect_def
  bind_def lift_def cursor_def execute_def commit_def call_def fetchall_def description_def
  dict_get_def

section \<open>Construction of the connector\<close>

lemma init_fails_iff:
  "(init env = Inl (Exn ''ValueError''
       ''Missing required environment variables for Azure SQL connection''))
   \<longleftrightarrow> (\<exists>k \<in> set required_vars. env k = None \<or> env k = Some [])"
proof -
  have t: "\<And>v. (\<not> truthy v) = (v = None \<or> v = Some [])"
    by (case_tac v) simp_all
  show ?thesis
    by (auto simp: init_def setup_connection_def required_vars_def t Let_def)
qed

lemma init_succeeds_iff:
  "(\<exists>c. init env = Inr c) \<longleftrightarrow> (\<forall>k \<in> set required_vars. \<exists>s. env k = Some s \<and> s \<noteq> [])"
proof -
  have t: "\<And>v. truthy v = (\<exists>s. v = Some s \<and> s \<noteq> [])"
    by (case_tac v) simp_all
  show ?thesis
    by (auto simp: init_def setup_connection_def required_vars_def t Let_def)
qed

lemma init_connection_string:
  assumes "init env = Inr c"
  shows "\<exists>s. connection_string c = Some s \<and> s \<noteq> []"
  using assms by (auto simp: init_def setup_connection_def Let_def split: if_splits)

text \<open>
  C6. Building the connector fails, with the \<open>ValueError\<close> that reports the missing
  configuration, exactly when one of the four variables (server, database, user name,
  password) is unset or empty. When the four are set and not empty it succeeds, and the
  check of the configuration that \<open>get_connection\<close> makes on every call passes: the call
  goes on to the driver.
\<close>

theorem C6_construction_fails_fast:
  "((init env = Inl (Exn ''ValueError''
        ''Missing required environment variables for Azure SQL connection''))
     \<longleftrightarrow> (\<exists>k \<in> set required_vars. env k = None \<or> env k = Some []))
   \<and> ((\<forall>k \<in> set required_vars. \<exists>s. env k = Some s \<and> s \<noteq> [])
     \<longrightarrow> (\<exists>c s. init env = Inr c \<and> connection_string c = Some s
            \<and> (\<forall>d l. get_connection d c l = pyodbc_connect d s l)))"
proof (intro conjI impI)
  show "(init env = Inl (Exn ''ValueError''
        ''Missing required environment variables for Azure SQL connection''))
     \<longleftrightarrow> (\<exists>k \<in> set required_vars. env k = None \<or> env k = Some [])"
    by (rule init_fails_iff)
next
  assume "\<forall>k \<in> set required_vars. \<exists>s. env k = Some s \<and> s \<noteq> []"
  then obtain c where c: "init env = Inr c"
    using init_succeeds_iff by blast
  then obtain s where s: "connection_string c = Some s" "s \<noteq> []"
    using init_connection_string by blast
  have "\<forall>d l. get_connection d c l = pyodbc_connect d s l"
    using s by (auto simp: get_connection_def split: prod.splits sum.splits)
  with c s show "\<exists>c s. init env = Inr c \<and> connection_string c = Some s
            \<and> (\<forall>d l. get_connection d c l = pyodbc_connect d s l)"
    by blast
qed

theorem C6_construction_fails_fast_witness:
  "(\<exists>c s. init env_ok = Inr c \<and> connection_string c = Some s
            \<and> (\<forall>d l. get_connection d c l = pyodbc_connect d s l))
   \<and> init env_empty_password = Inl (Exn ''ValueError''
        ''Missing required environment variables for Azure SQL connection'')"
proof -
  have a: "\<forall>k \<in> set required_vars. \<exists>s. env_ok k = Some s \<and> s \<noteq> []"
    by (simp add: required_vars_def env_ok_def)
  have b: "\<exists>k \<in> set required_vars. env_empty_password k = None \<or> env_empty_password k = Some []"
    by (simp add: required_vars_def env_empty_password_def env_ok_def)
  show ?thesis
    using C6_construction_fails_fast [of env_ok] C6_construction_fails_fast [of env_empty_password] a b
    by blast
qed

text \<open>
  C10. After the constructor has returned, \<open>connection_string\<close> holds a string that is not
  empty, so \<open>get_connection\<close> never takes its branch "Connection string not configured":
  every call reaches the driver, which the log records.
\<close>

theorem C10_connection_string_configured:
  assumes "init env = Inr c"
  shows "\<exists>s. connection_string c = Some s \<and> s \<noteq> []
           \<and> (\<forall>d l. get_connection d c l = pyodbc_connect d s l
                  \<and> (\<exists>ok. snd (get_connection d c l) = l @ [Connect s ok]))"
proof -
  obtain s where s: "connection_string c = Some s" "s \<noteq> []"
    using init_connection_string [OF assms] by blast
  have g: "\<And>d l. get_connection d c l = pyodbc_connect d s l"
    using s by (auto simp: get_connection_def split: prod.splits sum.splits)
  have "\<And>d l. \<exists>ok. snd (pyodbc_connect d s l) = l @ [Connect s ok]"
    by (auto simp: pyodbc_connect_def split: option.splits)
  with s g show ?thesis by auto
qed

theorem C10_connection_string_configured_witness:
  "init env_ok = Inr connector_ok
   \<and> (\<exists>s. connection_string connector_ok = Some s \<and> s \<noteq> []
           \<and> (\<forall>d l. get_connection d connector_ok l = pyodbc_connect d s l
                  \<and> (\<exists>ok. snd (get_connection d connector_ok l) = l @ [Connect s ok])))"
proof -
  have i: "init env_ok = Inr connector_ok"
    by (simp add: init_def setup_connection_def env_ok_def connector_ok_def conn_str_ok_def)
  show ?thesis
    using i C10_connection_string_configured [OF i] by blast
qed

section \<open>Connections\<close>



section \<open>Dispatch\<close>

lemma handle_call_tool_unknown:
  assumes "name \<notin> set tool_names"
  shows "handle_call_tool d c name arguments l = (Inr [TextBlock (''Unknown tool: '' @ name)], l)"
proof -
  from assms have n: "name \<noteq> ''execute_query''" "name \<noteq> ''get_tables''"
      "name \<noteq> ''get_table_schema''" "name \<noteq> ''create_table''" "name \<noteq> ''insert_data''"
    unfolding tool_names_def by (simp_all only: list.set insert_iff empty_iff simp_thms de_Morgan_disj)
  show ?thesis
    unfolding handle_call_tool_def Let_def by (simp only: n if_False prod.case sum.case)
qed

lemma handle_call_tool_total:
  "\<exists>t. fst (handle_call_tool d c name arguments l) = Inr [TextBlock t]"
  unfolding handle_call_tool_fst Let_def
  by (split if_split | intro conjI impI | rule tools_text | (rule exI, rule refl))+

text \<open>
  C3. \<open>handle_call_tool\<close> always returns a response and never raises. For a name that is
  none of the five tools the response is "Unknown tool: " and the name, and nothing is
  called. For a tool, an exception raised anywhere in its \<open>try\<close> block (acquiring the
  connection, building the statement, the driver's calls, serializing, leaving the
  connection) becomes a response whose text ends with the message of the exception.
\<close>

theorem C3_dispatch_never_raises:
  "(\<exists>t l'. handle_call_tool d c name arguments l = (Inr [TextBlock t], l'))
   \<and> (name \<notin> set tool_names \<longrightarrow>
        handle_call_tool d c name arguments l
          = (Inr [TextBlock (''Unknown tool: '' @ name)], l))
   \<and> (name \<in> set tool_names \<longrightarrow>
        (\<forall>e. fst (tool_try d c name (case arguments of None \<Rightarrow> Map.empty | Some a \<Rightarrow> a) l) = Inl e
           \<longrightarrow> fst (handle_call_tool d c name arguments l)
                 = Inr [TextBlock (failure_prefix name @ exn_str e)]))"
proof (intro conjI impI allI)
  obtain t where "fst (handle_call_tool d c name arguments l) = Inr [TextBlock t]"
    using handle_call_tool_total by blast
  then show "\<exists>t l'. handle_call_tool d c name arguments l = (Inr [TextBlock t], l')"
    by (cases "handle_call_tool d c name arguments l") simp
next
  assume "name \<notin> set tool_names"
  then show "handle_call_tool d c name arguments l
          = (Inr [TextBlock (''Unknown tool: '' @ name)], l)"
    by (rule handle_call_tool_unknown)
next
  fix e
  assume "name \<in> set tool_names"
    and "fst (tool_try d c name (case arguments of None \<Rightarrow> Map.empty | Some a \<Rightarrow> a) l) = Inl e"
  then show "fst (handle_call_tool d c name arguments l)
                 = Inr [TextBlock (failure_prefix name @ exn_str e)]"
    by (simp only: handle_call_tool_fst_tool sum.case)
qed

theorem C3_dispatch_never_raises_witness:
  "handle_call_tool (drv_quiet [] None) connector_ok ''drop_table'' None []
     = (Inr [TextBlock ''Unknown tool: drop_table''], [])
   \<and> fst (tool_try (drv_reject (Exn ''ProgrammingError'' ''bad'')) connector_ok ''get_tables''
            Map.empty []) = Inl (Exn ''ProgrammingError'' ''bad'')
   \<and> fst (handle_call_tool (drv_reject (Exn ''ProgrammingError'' ''bad'')) connector_ok
            ''get_tables'' None []) = Inr [TextBlock ''Failed to get tables: bad'']"
proof -
  have u: "''drop_table'' \<notin> set tool_names" by (simp add: tool_names_def)
  have n: "''get_tables'' \<in> set tool_names" by (simp add: tool_names_def)
  have r: "fst (tool_try (drv_reject (Exn ''ProgrammingError'' ''bad'')) connector_ok ''get_tables''
            Map.empty []) = Inl (Exn ''ProgrammingError'' ''bad'')"
    by (simp add: tool_try_def get_tables_try_def with_connection_def leave_def get_connection_def
          pyodbc_connect_def connector_ok_def conn_str_ok_def drv_reject_def bind_def cursor_def
          execute_def call_def)
  have p: "failure_prefix ''get_tables'' = ''Failed to get tables: ''"
    by (simp add: failure_prefix_def)
  show ?thesis
    using C3_dispatch_never_raises [of "drv_quiet [] None" connector_ok "''drop_table''" None "[]"]
      C3_dispatch_never_raises [of "drv_reject (Exn ''ProgrammingError'' ''bad'')" connector_ok
        "''get_tables''" None "[]"] u n r p
    by simp
qed

text \<open>
  C7. Every call is answered by a list of exactly one content block of type "text", never by
  an exception. When the \<open>try\<close> block of a tool fails, the text is the prefix of that tool
  followed by the message of the exception; when it succeeds, the answer is the one the
  block returned.
\<close>

theorem C7_one_text_block_per_call:
  "(\<exists>t. fst (handle_call_tool d c name arguments l) = Inr [\<lparr>tc_type = ''text'', tc_text = t\<rparr>])
   \<and> (name \<in> set tool_names \<longrightarrow>
        fst (handle_call_tool d c name arguments l)
          = (case fst (tool_try d c name (case arguments of None \<Rightarrow> Map.empty | Some a \<Rightarrow> a) l) of
               Inl e \<Rightarrow> Inr [TextBlock (failure_prefix name @ exn_str e)]
             | Inr r \<Rightarrow> Inr r))
   \<and> failure_prefix ''execute_query'' = ''Query execution failed: ''
   \<and> failure_prefix ''get_tables'' = ''Failed to get tables: ''
   \<and> failure_prefix ''get_table_schema'' = ''Failed to get schema: ''
   \<and> failure_prefix ''create_table'' = ''Failed to create table: ''
   \<and> failure_prefix ''insert_data'' = ''Failed to insert data: ''"
proof (intro conjI impI)
  show "\<exists>t. fst (handle_call_tool d c name arguments l) = Inr [\<lparr>tc_type = ''text'', tc_text = t\<rparr>]"
    by (rule handle_call_tool_total)
next
  assume "name \<in> set tool_names"
  then show "fst (handle_call_tool d c name arguments l)
          = (case fst (tool_try d c name (case arguments of None \<Rightarrow> Map.empty | Some a \<Rightarrow> a) l) of
               Inl e \<Rightarrow> Inr [TextBlock (failure_prefix name @ exn_str e)]
             | Inr r \<Rightarrow> Inr r)"
    by (rule handle_call_tool_fst_tool)
qed (simp_all add: failure_prefix_def)

theorem C7_one_text_block_per_call_witness:
  "fst (handle_call_tool (drv_reject (Exn ''ProgrammingError'' ''no such table'')) connector_ok
          ''execute_query'' (Some [''query'' \<mapsto> PStr ''SELECT * FROM missing'']) [])
     = Inr [TextBlock ''Query execution failed: no such table'']"
proof -
  have n: "''execute_query'' \<in> set tool_names" by (simp add: tool_names_def)
  have r: "fst (tool_try (drv_reject (Exn ''ProgrammingError'' ''no such table'')) connector_ok
            ''execute_query'' [''query'' \<mapsto> PStr ''SELECT * FROM missing''] [])
          = Inl (Exn ''ProgrammingError'' ''no such table'')"
    by (simp add: tool_try_def execute_query_try_def with_connection_def leave_def get_connection_def
          pyodbc_connect_def connector_ok_def conn_str_ok_def drv_reject_def bind_def cursor_def
          execute_def call_def)
  show ?thesis
    using C7_one_text_block_per_call [of "drv_reject (Exn ''ProgrammingError'' ''no such table'')"
        connector_ok "''execute_query''" "Some [''query'' \<mapsto> PStr ''SELECT * FROM missing'']" "[]"]
      n r
    by simp
qed

section \<open>Commits\<close>

lemma tool_result:
  assumes "fst (try_except p body l) = Inr [TextBlock t]"
    and "\<And>e. t \<noteq> p @ exn_str e"
  shows "body l = (Inr [TextBlock t], snd (try_except p body l))"
  using assms by (auto simp: try_except_def split: prod.splits sum.splits)

lemma create_table_success:
  assumes "fst (create_table d c args l)
    = Inr [TextBlock (''Table '' @ [CHR 0x27] @ py_str (dict_get args ''table_name'' (PStr ''''))
             @ [CHR 0x27] @ '' created successfully.'')]"
  shows "\<exists>s q. snd (create_table d c args l)
           = l @ [Connect s True, Enter, Cursor True, Execute (PStr q) [] True, Commit True,
                  Exit False True]"
proof -
  let ?t = "''Table '' @ [CHR 0x27] @ py_str (dict_get args ''table_name'' (PStr ''''))
             @ [CHR 0x27] @ '' created successfully.''"
  let ?l' = "snd (create_table d c args l)"
  have "create_table_try d c (dict_get args ''table_name'' (PStr ''''))
          (dict_get args ''columns'' (PStr '''')) l = (Inr [TextBlock ?t], ?l')"
    using assms unfolding create_table_def Let_def
    by (intro tool_result) simp_all
  then show ?thesis
    unfolding create_table_try_def Let_def cursor_def execute_def commit_def
    by (auto elim!: with_connection_InrE bind_InrE simp: call_Inr lift_eq)
qed

lemma insert_data_success:
  assumes "fst (insert_data d c args l)
    = Inr [TextBlock (''Data inserted into '' @ [CHR 0x27]
             @ py_str (dict_get args ''table_name'' (PStr '''')) @ [CHR 0x27]
             @ '' successfully.'')]"
  shows "\<exists>s q. snd (insert_data d c args l)
           = l @ [Connect s True, Enter, Cursor True,
                  Execute (PStr q) [dict_get args ''values'' (PList [])] True, Commit True,
                  Exit False True]"
proof -
  let ?t = "''Data inserted into '' @ [CHR 0x27]
             @ py_str (dict_get args ''table_name'' (PStr '''')) @ [CHR 0x27]
             @ '' successfully.''"
  let ?l' = "snd (insert_data d c args l)"
  have "insert_data_try d c (dict_get args ''table_name'' (PStr ''''))
          (dict_get args ''columns'' (PList [])) (dict_get args ''values'' (PList [])) l
        = (Inr [TextBlock ?t], ?l')"
    using assms unfolding insert_data_def Let_def
    by (intro tool_result) simp_all
  then show ?thesis
    unfolding insert_data_try_def Let_def cursor_def execute_def commit_def
    by (auto elim!: with_connection_InrE bind_InrE simp: call_Inr lift_eq)
qed

lemma execute_query_success:
  assumes "fst (execute_query d c args l) = Inr [TextBlock ''Query executed successfully.'']"
  shows "\<exists>s. snd (execute_query d c args l)
           = l @ [Connect s True, Enter, Cursor True,
                  Execute (dict_get args ''query'' (PStr ''''))
                    [dict_get args ''parameters'' (PList [])] True,
                  Commit True, Exit False True]
           \<and> is_select (dict_get args ''query'' (PStr '''')) = Inr False"
proof -
  let ?l' = "snd (execute_query d c args l)"
  have "execute_query_try d c (dict_get args ''query'' (PStr ''''))
          (dict_get args ''parameters'' (PList [])) l
        = (Inr [TextBlock ''Query executed successfully.''], ?l')"
    using assms unfolding execute_query_def Let_def
    by (intro tool_result) simp_all
  then show ?thesis
    unfolding execute_query_try_def Let_def cursor_def execute_def commit_def
    by (auto elim!: with_connection_InrE bind_InrE simp: call_Inr lift_eq split: if_splits)
qed


text \<open>The log of a \<open>with\<close> block whose body runs a statement and commits.\<close>

lemma exec_commit_snd:
  "snd (bind (execute d q ps) (\<lambda>_. bind (commit d) (\<lambda>_. lift (Inr r))) l0)
     = (if drv_execute d l0 q ps \<noteq> None then l0 @ [Execute q ps False]
        else l0 @ [Execute q ps True, Commit (drv_commit d (l0 @ [Execute q ps True]) = None)])"
  by (auto simp: bind_def execute_def commit_def call_def lift_def split: option.splits)

lemma commit_follows_append:
  "list_all (\<lambda>e. \<not> (\<exists>q ps. e = Execute q ps True)) es
     \<Longrightarrow> commit_follows (es @ fs) = commit_follows fs"
proof (induction es)
  case Nil
  then show ?case by simp
next
  case (Cons e es)
  then show ?case by (cases e; cases "es @ fs") auto
qed

lemma create_table_commit_follows:
  "commit_follows (drop (length l) (snd (create_table d c args l)))"
  by (simp add: create_table_def try_except_snd create_table_try_def with_connection_snd
        bind_def cursor_def execute_def commit_def call_def lift_def Let_def
      split: option.splits)

lemma insert_data_commit_follows:
  "commit_follows (drop (length l) (snd (insert_data d c args l)))"
  by (simp add: insert_data_def try_except_snd insert_data_try_def with_connection_snd
        bind_def cursor_def execute_def commit_def call_def lift_def Let_def
      split: option.splits sum.splits)

lemma execute_query_commit_follows:
  assumes "is_select (dict_get args ''query'' (PStr '''')) = Inr False"
  shows "commit_follows (drop (length l) (snd (execute_query d c args l)))"
  using assms
  by (simp add: execute_query_def try_except_snd execute_query_try_def with_connection_snd
        bind_def cursor_def execute_def commit_def call_def lift_def Let_def
      split: option.splits)

text \<open>
  C4. For the three paths that change the database (\<open>execute_query\<close> on a statement that
  is not a SELECT, \<open>create_table\<close>, \<open>insert_data\<close>): when the answer is the success
  message, the calls made were connect, cursor, execute and commit, each successful and in
  that order, then the exit of the connection. And on every run of these paths a statement
  executed with success is followed at once by a call of commit.
\<close>

theorem C4_commit_before_success:
  "(fst (execute_query d c args l) = Inr [TextBlock ''Query executed successfully.'']
      \<longrightarrow> (\<exists>s. snd (execute_query d c args l)
             = l @ [Connect s True, Enter, Cursor True,
                    Execute (dict_get args ''query'' (PStr ''''))
                      [dict_get args ''parameters'' (PList [])] True,
                    Commit True, Exit False True]))
   \<and> (fst (create_table d c args l)
        = Inr [TextBlock (''Table '' @ [CHR 0x27]
                 @ py_str (dict_get args ''table_name'' (PStr '''')) @ [CHR 0x27]
                 @ '' created successfully.'')]
      \<longrightarrow> (\<exists>s q. snd (create_table d c args l)
             = l @ [Connect s True, Enter, Cursor True, Execute (PStr q) [] True, Commit True,
                    Exit False True]))
   \<and> (fst (insert_data d c args l)
        = Inr [TextBlock (''Data inserted into '' @ [CHR 0x27]
                 @ py_str (dict_get args ''table_name'' (PStr '''')) @ [CHR 0x27]
                 @ '' successfully.'')]
      \<longrightarrow> (\<exists>s q. snd (insert_data d c args l)
             = l @ [Connect s True, Enter, Cursor True,
                    Execute (PStr q) [dict_get args ''values'' (PList [])] True, Commit True,
                    Exit False True]))
   \<and> commit_follows (drop (length l) (snd (create_table d c args l)))
   \<and> commit_follows (drop (length l) (snd (insert_data d c args l)))
   \<and> (is_select (dict_get args ''query'' (PStr '''')) = Inr False
      \<longrightarrow> commit_follows (drop (length l) (snd (execute_query d c args l))))"
proof (intro conjI impI)
  assume "fst (execute_query d c args l) = Inr [TextBlock ''Query executed successfully.'']"
  then show "\<exists>s. snd (execute_query d c args l)
             = l @ [Connect s True, Enter, Cursor True,
                    Execute (dict_get args ''query'' (PStr ''''))
                      [dict_get args ''parameters'' (PList [])] True,
                    Commit True, Exit False True]"
    using execute_query_success by blast
next
  assume "fst (create_table d c args l)
        = Inr [TextBlock (''Table '' @ [CHR 0x27]
                 @ py_str (dict_get args ''table_name'' (PStr '''')) @ [CHR 0x27]
                 @ '' created successfully.'')]"
  then show "\<exists>s q. snd (create_table d c args l)
             = l @ [Connect s True, Enter, Cursor True, Execute (PStr q) [] True, Commit True,
                    Exit False True]"
    by (rule create_table_success)
next
  assume "fst (insert_data d c args l)
        = Inr [TextBlock (''Data inserted into '' @ [CHR 0x27]
                 @ py_str (dict_get args ''table_name'' (PStr '''')) @ [CHR 0x27]
                 @ '' successfully.'')]"
  then show "\<exists>s q. snd (insert_data d c args l)
             = l @ [Connect s True, Enter, Cursor True,
                    Execute (PStr q) [dict_get args ''values'' (PList [])] True, Commit True,
                    Exit False True]"
    by (rule insert_data_success)
next
  show "commit_follows (drop (length l) (snd (create_table d c args l)))"
    by (rule create_table_commit_follows)
next
  show "commit_follows (drop (length l) (snd (insert_data d c args l)))"
    by (rule insert_data_commit_follows)
next
  assume "is_select (dict_get args ''query'' (PStr '''')) = Inr False"
  then show "commit_follows (drop (length l) (snd (execute_query d c args l)))"
    by (rule execute_query_commit_follows)
qed

theorem C4_commit_before_success_witness:
  "fst (execute_query (drv_quiet [] None) connector_ok
          [''query'' \<mapsto> PStr ''DELETE FROM t''] [])
     = Inr [TextBlock ''Query executed successfully.'']
   \<and> (\<exists>s. snd (execute_query (drv_quiet [] None) connector_ok
          [''query'' \<mapsto> PStr ''DELETE FROM t''] [])
        = [] @ [Connect s True, Enter, Cursor True,
                Execute (dict_get [''query'' \<mapsto> PStr ''DELETE FROM t''] ''query'' (PStr ''''))
                  [dict_get [''query'' \<mapsto> PStr ''DELETE FROM t''] ''parameters'' (PList [])] True,
                Commit True, Exit False True])"
proof -
  have s: "is_select (PStr ''DELETE FROM t'') = Inr False"
    by code_simp
  have f: "fst (execute_query (drv_quiet [] None) connector_ok
          [''query'' \<mapsto> PStr ''DELETE FROM t''] [])
     = Inr [TextBlock ''Query executed successfully.'']"
    by (simp add: execute_query_def execute_query_try_def run_defs quiet_steps
          connector_ok_string s)
  show ?thesis
    using f C4_commit_before_success [of "drv_quiet [] None" connector_ok
        "[''query'' \<mapsto> PStr ''DELETE FROM t'']" "[]"]
    by blast
qed

section \<open>The schema of a table with no columns in the catalog\<close>

text \<open>
  C9. When \<open>get_table_schema\<close> runs without an exception (the connection is made, the
  statement executes, the connection is left in peace) and the query returns no row, the
  answer is the line "Schema for table '<name>':" followed by the empty JSON array, not a
  failure message.
\<close>

theorem C9_schema_of_absent_table:
  assumes "connection_string c = Some s" and "s \<noteq> []"
    and "tn = dict_get args ''table_name'' (PStr '''')"
    and "drv_connect d l s = None"
    and "drv_cursor d (l @ [Connect s True, Enter]) = None"
    and "drv_execute d (l @ [Connect s True, Enter, Cursor True])
           (PStr get_table_schema_sql) [tn] = None"
    and "drv_fetchall d (l @ [Connect s True, Enter, Cursor True,
           Execute (PStr get_table_schema_sql) [tn] True]) = Inr []"
    and "drv_exit d (l @ [Connect s True, Enter, Cursor True,
           Execute (PStr get_table_schema_sql) [tn] True, Fetchall True]) False = None"
  shows "fst (get_table_schema d c args l)
         = Inr [TextBlock (''Schema for table '' @ [CHR 0x27] @ py_str tn @ [CHR 0x27] @ '':''
                  @ [CHR 0x0A] @ ''[]'')]"
  using assms
  by (simp add: get_table_schema_def get_table_schema_try_def try_except_def
        with_connection_def leave_def get_connection_def pyodbc_connect_def bind_def lift_def cursor_def
        execute_def call_def fetchall_def json_dumps_rows_def json_array_def Let_def)

theorem C9_schema_of_absent_table_witness:
  "fst (get_table_schema (drv_quiet [] None) connector_ok [''table_name'' \<mapsto> PStr ''nope''] [])
     = Inr [TextBlock (''Schema for table '' @ [CHR 0x27] @ ''nope'' @ [CHR 0x27] @ '':''
              @ [CHR 0x0A] @ ''[]'')]"
  using C9_schema_of_absent_table [of connector_ok conn_str_ok "PStr ''nope''"
      "[''table_name'' \<mapsto> PStr ''nope'']" "drv_quiet [] None" "[]"]
  by (simp add: connector_ok_string quiet_steps dict_get_def)

section \<open>Arguments\<close>

lemma join_items_strs: "join_items i (map PStr cols) = Inr cols"
  by (induction cols arbitrary: i) simp_all

lemma insert_data_snd:
  assumes "connection_string c = Some s" and "s \<noteq> []"
    and "drv_connect d l s = None"
    and "drv_cursor d (l @ [Connect s True, Enter]) = None"
  shows "snd (insert_data d c args l)
         = (let l1 = l @ [Connect s True, Enter, Cursor True];
                r = bind (lift (str_join '', '' (dict_get args ''columns'' (PList []))))
                      (\<lambda>columns_str.
                       bind (lift (placeholders (dict_get args ''values'' (PList []))))
                         (\<lambda>marks.
                          bind (execute d (PStr (insert_query
                                  (dict_get args ''table_name'' (PStr '''')) columns_str
                                  (join '', '' marks)))
                                 [dict_get args ''values'' (PList [])])
                            (\<lambda>_. bind (commit d) (\<lambda>_.
                               lift (Inr [TextBlock (''Data inserted into '' @ [CHR 0x27]
                                      @ py_str (dict_get args ''table_name'' (PStr ''''))
                                      @ [CHR 0x27] @ '' successfully.'')]))))) l1
            in snd r @ [Exit (isl (fst r)) (drv_exit d (snd r) (isl (fst r)) = None)])"
  using assms
  by (simp add: insert_data_def try_except_snd insert_data_try_def with_connection_snd
        bind_def cursor_def call_def Let_def)

text \<open>
  C1, as the code has it. \<open>insert_data\<close> does not compare the number of columns with the
  number of values. For a list of column names and a list of values, of any two lengths, on
  a connection that could be made, the statement
  \<open>INSERT INTO t (c1, c2, ...) VALUES (?, ?, ...)\<close> with one mark per value is sent to the
  driver with the values as parameters; when the driver raises on it, the answer is
  "Failed to insert data: " and the driver's message.
\<close>

theorem C1_insert_sends_statement_unchecked:
  assumes "connection_string c = Some s" and "s \<noteq> []"
    and "args ''table_name'' = Some (PStr t)"
    and "args ''columns'' = Some (PList (map PStr cols))"
    and "args ''values'' = Some (PList vals)"
    and "drv_connect d l s = None"
    and "drv_cursor d (l @ [Connect s True, Enter]) = None"
    and "q = ''INSERT INTO '' @ t @ '' ('' @ join '', '' cols @ '') VALUES (''
               @ join '', '' (replicate (length vals) ''?'') @ '')''"
    and "l1 = l @ [Connect s True, Enter, Cursor True]"
  shows "(\<exists>rest. snd (insert_data d c args l)
            = l1 @ [Execute (PStr q) [PList vals] (drv_execute d l1 (PStr q) [PList vals] = None)]
              @ rest)
         \<and> (\<forall>e. drv_execute d l1 (PStr q) [PList vals] = Some e
               \<and> drv_exit d (l1 @ [Execute (PStr q) [PList vals] False]) True = None
             \<longrightarrow> fst (insert_data d c args l)
                   = Inr [TextBlock (''Failed to insert data: '' @ exn_str e)])"
proof -
  have m: "map (\<lambda>_. ''?'') vals = replicate (length vals) ''?''"
    by (simp add: map_replicate_const)
  have a: "snd (insert_data d c args l)
      = l1 @ [Execute (PStr q) [PList vals] (drv_execute d l1 (PStr q) [PList vals] = None)]
        @ (if drv_execute d l1 (PStr q) [PList vals] = None
           then [Commit (drv_commit d (l1 @ [Execute (PStr q) [PList vals] True]) = None),
                 Exit (drv_commit d (l1 @ [Execute (PStr q) [PList vals] True]) \<noteq> None)
                   (drv_exit d (l1 @ [Execute (PStr q) [PList vals] True,
                       Commit (drv_commit d (l1 @ [Execute (PStr q) [PList vals] True]) = None)])
                      (drv_commit d (l1 @ [Execute (PStr q) [PList vals] True]) \<noteq> None) = None)]
           else [Exit True (drv_exit d (l1 @ [Execute (PStr q) [PList vals] False]) True = None)])"
    unfolding insert_data_snd [OF assms(1,2,6,7)]
    using assms(3,4,5,8,9)
    by (auto simp: dict_get_def str_join_def placeholders_def join_items_strs m insert_query_def
          bind_def lift_def execute_def commit_def call_def Let_def split: option.splits)
  have b: "fst (insert_data d c args l) = Inr [TextBlock (''Failed to insert data: '' @ exn_str e)]"
    if "drv_execute d l1 (PStr q) [PList vals] = Some e"
      and "drv_exit d (l1 @ [Execute (PStr q) [PList vals] False]) True = None" for e
    using assms that
    by (simp add: insert_data_def insert_data_try_def run_defs str_join_def placeholders_def
          join_items_strs m insert_query_def Let_def)
  from a b show ?thesis by blast
qed

text \<open>
  Two column names and one value: the call succeeds on a driver that accepts everything, and
  the statement with two columns and one mark has been sent.
\<close>

theorem C1_mismatch_is_sent:
  "handle_call_tool (drv_quiet [] None) connector_ok ''insert_data''
     (Some [''table_name'' \<mapsto> PStr ''t'', ''columns'' \<mapsto> PList [PStr ''a'', PStr ''b''],
            ''values'' \<mapsto> PList [PStr ''1'']]) []
   = (Inr [TextBlock (''Data inserted into '' @ [CHR 0x27] @ ''t'' @ [CHR 0x27]
             @ '' successfully.'')],
      [Connect conn_str_ok True, Enter, Cursor True,
       Execute (PStr ''INSERT INTO t (a, b) VALUES (?)'') [PList [PStr ''1'']] True,
       Commit True, Exit False True])"
  by (simp add: handle_call_tool_def insert_data_def insert_data_try_def run_defs quiet_steps
        connector_ok_string str_join_def placeholders_def insert_query_def)

theorem C1_insert_sends_statement_unchecked_witness:
  "fst (insert_data (drv_reject (Exn ''ProgrammingError'' ''42000'')) connector_ok
     [''table_name'' \<mapsto> PStr ''t'', ''columns'' \<mapsto> PList (map PStr [''a'', ''b'']),
      ''values'' \<mapsto> PList [PStr ''1'']] [])
   = Inr [TextBlock ''Failed to insert data: 42000'']"
proof -
  have r: "drv_connect (drv_reject e) l s = None" "drv_cursor (drv_reject e) l = None"
    "drv_execute (drv_reject e) l q ps = Some e" "drv_exit (drv_reject e) l b = None"
    for e l s q ps b
    by (simp_all add: drv_reject_def)
  show ?thesis
    using C1_insert_sends_statement_unchecked [of connector_ok conn_str_ok
        "[''table_name'' \<mapsto> PStr ''t'', ''columns'' \<mapsto> PList (map PStr [''a'', ''b'']),
          ''values'' \<mapsto> PList [PStr ''1'']]" "''t''" "[''a'', ''b'']" "[PStr ''1'']"
        "drv_reject (Exn ''ProgrammingError'' ''42000'')" "[]"
        "''INSERT INTO t (a, b) VALUES (?)''"
        "[Connect conn_str_ok True, Enter, Cursor True]"]
    by (simp add: connector_ok_string r)
qed






section \<open>Which statements return rows\<close>




















end
